theory Spec2Isabelle
  imports Main "HOL-Library.Sublist"
begin

section \<open>Application entry point (src/main.ts)\<close>

text \<open>
  The entry point is one straight-line asynchronous function, \<^verbatim>\<open>bootstrap\<close>. It reads
  two configuration sources, builds the framework application, registers a sequence
  of cross-cutting concerns on it and starts listening. The embedding records every
  call that has an effect on the application as an event, in program order, and
  returns the list of events together with the error that ended the run, if any.
  Calls that only fetch a handle (\<^verbatim>\<open>app.get\<close>, \<^verbatim>\<open>getHttpAdapter().getInstance()\<close>)
  leave no event. Calls into the framework are taken to return normally; the
  exceptions the function itself can meet are those of \<^verbatim>\<open>getOrThrow\<close>.
\<close>

subsection \<open>Configuration\<close>

text \<open>
  The environment modes are the five keys of the \<^verbatim>\<open>envToLogger\<close> table, whose type
  \<^verbatim>\<open>Record<`${Environment}`, any>\<close> requires one entry per mode.
\<close>

datatype Environment = Local | Development | Production | Staging | Test

text \<open>The fields of \<^verbatim>\<open>getAppConfig()\<close> that \<^verbatim>\<open>bootstrap\<close> reads.\<close>

record AppConfig =
  isWorker :: bool
  appLogging :: bool
  nodeEnv :: Environment
  isHttps :: bool

text \<open>
  The keys of the \<^verbatim>\<open>ConfigService<GlobalConfig>\<close> that \<^verbatim>\<open>bootstrap\<close> reads. A key
  with no value is \<open>None\<close>. The type of the CORS origin is declared outside these
  files and stays a type parameter.
\<close>

record 'o GlobalConfig =
  auth_authSecret :: "string option"
  app_corsOrigin :: "'o option"
  app_nodeEnv :: "Environment option"
  sentry_dsn :: "string option"
  app_workerPort :: "nat option"
  app_port :: "nat option"

datatype error = ConfigKeyMissing string

text \<open>\<^verbatim>\<open>configService.getOrThrow(key, { infer: true })\<close>: the value, or an exception
  naming the key when it has none.\<close>

definition getOrThrow :: "string \<Rightarrow> 'a option \<Rightarrow> error + 'a" where
  "getOrThrow key v = (case v of None \<Rightarrow> Inl (ConfigKeyMissing key) | Some x \<Rightarrow> Inr x)"

subsection \<open>Logger selection\<close>

text \<open>
  The \<^verbatim>\<open>logger\<close> option of the Fastify adapter is either the object returned by
  \<^verbatim>\<open>consoleLoggingConfig()\<close> (opaque here) or a boolean.
\<close>

datatype logger_option = consoleLoggingConfig | LoggerFlag bool

fun envToLogger :: "Environment \<Rightarrow> logger_option" where
  "envToLogger Local = consoleLoggingConfig"
| "envToLogger Development = consoleLoggingConfig"
| "envToLogger Production = LoggerFlag True"
| "envToLogger Staging = LoggerFlag True"
| "envToLogger Test = LoggerFlag False"

record FastifyAdapterOptions =
  logger :: logger_option
  trustProxy :: bool

definition fastifyAdapterOptions :: "AppConfig \<Rightarrow> FastifyAdapterOptions" where
  "fastifyAdapterOptions appConfig =
     \<lparr>logger = (if appLogging appConfig then envToLogger (nodeEnv appConfig)
                else LoggerFlag False),
      trustProxy = isHttps appConfig\<rparr>"

subsection \<open>Validation pipe options\<close>

record ValidationError =
  property :: string
  constraints :: "string list"

record HttpException =
  status :: nat
  response :: "ValidationError list"

text \<open>
  Modelled from the spec: the framework's \<^verbatim>\<open>HttpStatus.UNPROCESSABLE_ENTITY\<close> constant
  and its \<^verbatim>\<open>UnprocessableEntityException\<close> class are imported from the framework and are
  not among the sources. The spec gives the status as HTTP 422 and the body as the
  structured validation error detail.
\<close>

definition HttpStatus_UNPROCESSABLE_ENTITY :: nat where
  "HttpStatus_UNPROCESSABLE_ENTITY = 422"

definition UnprocessableEntityException :: "ValidationError list \<Rightarrow> HttpException" where
  "UnprocessableEntityException errors =
     \<lparr>status = HttpStatus_UNPROCESSABLE_ENTITY, response = errors\<rparr>"

record ValidationPipeOptions =
  transform :: bool
  whitelist :: bool
  forbidNonWhitelisted :: bool
  errorHttpStatusCode :: nat
  exceptionFactory :: "ValidationError list \<Rightarrow> HttpException"

definition validationPipeOptions :: ValidationPipeOptions where
  "validationPipeOptions =
     \<lparr>transform = True,
      whitelist = True,
      forbidNonWhitelisted = True,
      errorHttpStatusCode = HttpStatus_UNPROCESSABLE_ENTITY,
      exceptionFactory = (\<lambda>errors. UnprocessableEntityException errors)\<rparr>"

subsection \<open>CORS, error monitoring\<close>

record 'o CorsOptions =
  origin :: 'o
  methods :: "string list"
  allowedHeaders :: "string list"
  credentials :: bool

definition corsOptions :: "'o \<Rightarrow> 'o CorsOptions" where
  "corsOptions configuredOrigin =
     \<lparr>origin = configuredOrigin,
      methods = [''GET'', ''PATCH'', ''POST'', ''PUT'', ''DELETE'', ''OPTIONS'', ''HEAD''],
      allowedHeaders = [''Content-Type'', ''Authorization'', ''X-Requested-With'', ''Accept''],
      credentials = True\<rparr>"

record SentryOptions =
  dsn :: string
  tracesSampleRate :: nat
  environment :: Environment

datatype interceptor = ClassSerializerInterceptor | SentryInterceptor

datatype VersioningType = URI

datatype AppModule = AppModule_worker | AppModule_main

subsection \<open>The request hook for the job dashboard\<close>

record FastifyRequest =
  url :: string
  headers :: "(string \<times> string) list"

text \<open>
  What awaiting a hook or a middleware leaves behind: the request goes on through
  the request lifecycle, or a reply has been sent and the request is rejected.
\<close>

datatype hook_outcome = Continue | Rejected

text \<open>The result of the hook: the requests handed to the authentication middleware,
  and the outcome.\<close>

record hook_result =
  auth_calls :: "FastifyRequest list"
  outcome :: hook_outcome

text \<open>\<^verbatim>\<open>s.startsWith(p)\<close>: the first \<open>length p\<close> characters of \<open>s\<close> are \<open>p\<close>.\<close>

definition startsWith :: "string \<Rightarrow> string \<Rightarrow> bool" where
  "startsWith s p = (take (length p) s = p)"

text \<open>
  The \<^verbatim>\<open>onRequest\<close> hook of lines 123 to 128. \<^verbatim>\<open>BULL_BOARD_PATH\<close> and
  \<^verbatim>\<open>bullBoardAuthMiddleware\<close> are imported from a module that is not among the sources;
  both are parameters.
\<close>

definition onRequest ::
  "string \<Rightarrow> (FastifyRequest \<Rightarrow> hook_outcome) \<Rightarrow> FastifyRequest \<Rightarrow> hook_result" where
  "onRequest BULL_BOARD_PATH bullBoardAuthMiddleware req =
     (if startsWith (url req) (''/api'' @ BULL_BOARD_PATH)
      then \<lparr>auth_calls = [req], outcome = bullBoardAuthMiddleware req\<rparr>
      else \<lparr>auth_calls = [], outcome = Continue\<rparr>)"

subsection \<open>The bootstrap sequence\<close>

datatype 'o event =
    NestFactory_create AppModule FastifyAdapterOptions bool
  | register_fastifyCookie string
  | setGlobalPrefix string
  | useGlobalPipes ValidationPipeOptions
  | enableVersioning VersioningType
  | enableCors "'o CorsOptions"
  | use_helmet
  | useGlobalInterceptors interceptor
  | setupSwagger
  | Sentry_init SentryOptions
  | setupGracefulShutdown
  | useWebSocketAdapter_RedisIoAdapter
  | addHook string "FastifyRequest \<Rightarrow> hook_result"
  | listen nat string
  | console_info string

text \<open>
  The imports that are not among the sources and the URL the framework reports after
  listening are the first three parameters. The result is the events that happened, in
  order, and the exception that ended the run (\<open>None\<close> when \<^verbatim>\<open>bootstrap\<close> returned
  the application).
\<close>

definition bootstrap ::
  "string \<Rightarrow> (FastifyRequest \<Rightarrow> hook_outcome) \<Rightarrow> string \<Rightarrow> AppConfig \<Rightarrow> 'o GlobalConfig
     \<Rightarrow> 'o event list \<times> error option" where
  "bootstrap BULL_BOARD_PATH bullBoardAuthMiddleware httpUrl appConfig configService =
    (let t1 = [NestFactory_create
                 (if isWorker appConfig then AppModule_worker else AppModule_main)
                 (fastifyAdapterOptions appConfig) True]
     in case getOrThrow ''auth.authSecret'' (auth_authSecret configService) of
          Inl e \<Rightarrow> (t1, Some e)
        | Inr secret \<Rightarrow>
    (let t2 = t1 @ [register_fastifyCookie secret,
                    setGlobalPrefix ''api'',
                    useGlobalPipes validationPipeOptions,
                    enableVersioning URI]
     in case getOrThrow ''app.corsOrigin'' (app_corsOrigin configService) of
          Inl e \<Rightarrow> (t2, Some e)
        | Inr configuredOrigin \<Rightarrow>
    (let t3 = t2 @ [enableCors (corsOptions configuredOrigin),
                    use_helmet,
                    useGlobalInterceptors ClassSerializerInterceptor]
     in case getOrThrow ''app.nodeEnv'' (app_nodeEnv configService) of
          Inl e \<Rightarrow> (t3, Some e)
        | Inr env \<Rightarrow>
    (let t4 = t3 @ [setupSwagger]
     in case getOrThrow ''sentry.dsn'' (sentry_dsn configService) of
          Inl e \<Rightarrow> (t4, Some e)
        | Inr configuredDsn \<Rightarrow>
       (case getOrThrow ''app.nodeEnv'' (app_nodeEnv configService) of
          Inl e \<Rightarrow> (t4, Some e)
        | Inr sentryEnv \<Rightarrow>
    (let t5 = t4 @ [Sentry_init \<lparr>dsn = configuredDsn, tracesSampleRate = 1,
                                 environment = sentryEnv\<rparr>,
                    useGlobalInterceptors SentryInterceptor]
                @ (if env \<noteq> Local then [setupGracefulShutdown] else [])
                @ (if \<not> isWorker appConfig then [useWebSocketAdapter_RedisIoAdapter] else [])
                @ [addHook ''onRequest'' (onRequest BULL_BOARD_PATH bullBoardAuthMiddleware)]
     in case (if isWorker appConfig
              then getOrThrow ''app.workerPort'' (app_workerPort configService)
              else getOrThrow ''app.port'' (app_port configService)) of
          Inl e \<Rightarrow> (t5, Some e)
        | Inr port \<Rightarrow>
            (t5 @ [listen port ''0.0.0.0'',
                   console_info (CHR 0x1B # ''[3'' @ (if isWorker appConfig then ''3'' else ''4'')
                     @ ''m'' @ (if isWorker appConfig then ''Worker '' else '''')
                     @ ''Server running at '' @ httpUrl)],
             None)))))))"

subsection \<open>Reading a trace\<close>

text \<open>The \<^verbatim>\<open>listen\<close> calls of a trace, as (port, host) pairs.\<close>

definition listens :: "'o event list \<Rightarrow> (nat \<times> string) list" where
  "listens tr = concat (map (\<lambda>e. case e of listen p h \<Rightarrow> [(p, h)] | _ \<Rightarrow> []) tr)"


definition sentryInits :: "'o event list \<Rightarrow> SentryOptions list" where
  "sentryInits tr = concat (map (\<lambda>e. case e of Sentry_init c \<Rightarrow> [c] | _ \<Rightarrow> []) tr)"

text \<open>The hooks added to the HTTP server, as (hook name, handler) pairs.\<close>

definition hooks :: "'o event list \<Rightarrow> (string \<times> (FastifyRequest \<Rightarrow> hook_result)) list" where
  "hooks tr = concat (map (\<lambda>e. case e of addHook n h \<Rightarrow> [(n, h)] | _ \<Rightarrow> []) tr)"

text \<open>The call behind an event, without its arguments.\<close>

fun concern :: "'o event \<Rightarrow> string" where
  "concern (NestFactory_create m a b) = ''NestFactory.create''"
| "concern (register_fastifyCookie s) = ''register(fastifyCookie)''"
| "concern (setGlobalPrefix s) = ''setGlobalPrefix''"
| "concern (useGlobalPipes v) = ''useGlobalPipes(ValidationPipe)''"
| "concern (enableVersioning t) = ''enableVersioning''"
| "concern (enableCors c) = ''enableCors''"
| "concern use_helmet = ''use(helmet)''"
| "concern (useGlobalInterceptors ClassSerializerInterceptor) =
     ''useGlobalInterceptors(ClassSerializerInterceptor)''"
| "concern (useGlobalInterceptors SentryInterceptor) = ''useGlobalInterceptors(SentryInterceptor)''"
| "concern setupSwagger = ''setupSwagger''"
| "concern (Sentry_init c) = ''Sentry.init''"
| "concern setupGracefulShutdown = ''setupGracefulShutdown''"
| "concern useWebSocketAdapter_RedisIoAdapter = ''useWebSocketAdapter(RedisIoAdapter)''"
| "concern (addHook n h) = ''addHook''"
| "concern (listen p h) = ''listen''"
| "concern (console_info s) = ''console.info''"

section \<open>Parts that are not among the sources\<close>

subsection \<open>The validation pipe\<close>

text \<open>
  Modelled from the spec: the framework's \<^verbatim>\<open>ValidationPipe\<close> class, to which
  \<^verbatim>\<open>bootstrap\<close> hands \<open>validationPipeOptions\<close>, is imported and is not among the
  sources. The spec says that global request validation rejects unknown and malformed
  fields with HTTP 422, and that validation failures surface with structured
  validation error detail. The options are read as they are named: with
  \<^verbatim>\<open>whitelist\<close>, fields the DTO does not declare are dropped; with
  \<^verbatim>\<open>forbidNonWhitelisted\<close> as well, each of them is a validation error instead; the
  exception thrown for a non-empty list of errors is the one \<^verbatim>\<open>exceptionFactory\<close> builds.

  A DTO is the list of its declared fields, each with the check its value must pass; a
  request body is a list of fields with their values.
\<close>

type_synonym Dto = "(string \<times> (string \<Rightarrow> bool)) list"

type_synonym RequestBody = "(string \<times> string) list"

definition fieldErrors ::
  "ValidationPipeOptions \<Rightarrow> Dto \<Rightarrow> string \<times> string \<Rightarrow> ValidationError list" where
  "fieldErrors opts dto field =
     (case map_of dto (fst field) of
        None \<Rightarrow>
          if whitelist opts \<and> forbidNonWhitelisted opts
          then [\<lparr>property = fst field, constraints = [''whitelistValidation'']\<rparr>]
          else []
      | Some wellFormed \<Rightarrow>
          if wellFormed (snd field) then []
          else [\<lparr>property = fst field, constraints = [''malformed'']\<rparr>])"

definition ValidationPipe_transform ::
  "ValidationPipeOptions \<Rightarrow> Dto \<Rightarrow> RequestBody \<Rightarrow> HttpException + RequestBody" where
  "ValidationPipe_transform opts dto body =
     (let errors = concat (map (fieldErrors opts dto) body)
      in if errors \<noteq> [] then Inl (exceptionFactory opts errors)
         else Inr (if whitelist opts
                   then filter (\<lambda>field. map_of dto (fst field) \<noteq> None) body
                   else body))"

subsection \<open>The error-forwarding interceptor\<close>

text \<open>
  Modelled from the spec: the \<^verbatim>\<open>SentryInterceptor\<close> class
  (\<^verbatim>\<open>./interceptors/sentry.interceptor\<close>) is not among the sources. The spec says that
  runtime errors other than validation failures are forwarded to the external
  error-monitoring service by an interceptor, with no local recovery, retry or
  circuit breaking. The interceptor sees the result of handling a request; it returns
  the errors it forwards and the result it passes on. The spec does not say whether a
  validation failure is forwarded too, which stays a parameter.
\<close>

datatype 'e runtime_error = ValidationFailure HttpException | OtherError 'e

definition SentryInterceptor_intercept ::
  "bool \<Rightarrow> 'e runtime_error + 'a \<Rightarrow> 'e runtime_error list \<times> ('e runtime_error + 'a)" where
  "SentryInterceptor_intercept forwardsValidation result =
     (case result of
        Inr v \<Rightarrow> ([], result)
      | Inl (ValidationFailure x) \<Rightarrow>
          (if forwardsValidation then [ValidationFailure x] else [], result)
      | Inl (OtherError e) \<Rightarrow> ([OtherError e], result))"

subsection \<open>The dashboard authentication middleware\<close>

text \<open>
  Modelled from the spec: \<^verbatim>\<open>bullBoardAuthMiddleware\<close>
  (\<^verbatim>\<open>./middlewares/bull-board-auth.middleware\<close>) is not among the sources. The spec says
  that the dashboard is gated by a custom authentication check and that a request to it
  without valid credentials is rejected. What makes credentials valid is a parameter.
\<close>

definition bullBoardAuthMiddleware_spec ::
  "(FastifyRequest \<Rightarrow> bool) \<Rightarrow> FastifyRequest \<Rightarrow> hook_outcome" where
  "bullBoardAuthMiddleware_spec validCredentials req =
     (if validCredentials req then Continue else Rejected)"

section \<open>The verification entity (src/unnamed/part 000)\<close>

text \<open>
  The file declares one class with decorators of the object-relational mapper. A class
  declaration is kept as data: its name, its superclass, its decorators and its members.
  The options object of a decorator is the list of the properties it is written with,
  so \<^verbatim>\<open>@Column()\<close> has the empty list.
\<close>

datatype ts_type = TsString | TsDate

datatype decorator = Entity string | Column "(string \<times> string) list"

datatype member = Property string ts_type "decorator list" | Method string

record ClassDecl =
  className :: string
  superClass :: "string option"
  classDecorators :: "decorator list"
  members :: "member list"

definition VerificationEntity :: ClassDecl where
  "VerificationEntity =
     \<lparr>className = ''VerificationEntity'',
      superClass = Some ''BaseModel'',
      classDecorators = [Entity ''verification''],
      members =
        [Property ''identifier'' TsString [Column []],
         Property ''value'' TsString [Column []],
         Property ''expiresAt'' TsDate [Column [(''type'', ''timestamp'')]]]\<rparr>"

text \<open>The classes the file declares.\<close>

definition part_000 :: "ClassDecl list" where
  "part_000 = [VerificationEntity]"

text \<open>
  What the mapper reads off a declaration: the table names of its \<^verbatim>\<open>@Entity\<close>
  decorators, the columns its own \<^verbatim>\<open>@Column\<close> decorators declare (property name,
  property type, options), and its methods. The columns of the mapped table are those
  of the superclass, declared outside these files and so a parameter, and its own.
\<close>

definition tableNames :: "ClassDecl \<Rightarrow> string list" where
  "tableNames c = concat (map (\<lambda>d. case d of Entity n \<Rightarrow> [n] | Column opts \<Rightarrow> []) (classDecorators c))"

definition entities :: "ClassDecl list \<Rightarrow> ClassDecl list" where
  "entities file = filter (\<lambda>c. tableNames c \<noteq> []) file"

definition columnOptions :: "decorator list \<Rightarrow> (string \<times> string) list list" where
  "columnOptions ds = concat (map (\<lambda>d. case d of Column opts \<Rightarrow> [opts] | Entity n \<Rightarrow> []) ds)"

definition ownColumns :: "ClassDecl \<Rightarrow> (string \<times> ts_type \<times> (string \<times> string) list) list" where
  "ownColumns c =
     concat (map (\<lambda>m. case m of
                        Property n t ds \<Rightarrow> map (\<lambda>opts. (n, t, opts)) (columnOptions ds)
                      | Method n \<Rightarrow> [])
                 (members c))"

definition tableColumns ::
  "(string \<times> ts_type \<times> (string \<times> string) list) list \<Rightarrow> ClassDecl
     \<Rightarrow> (string \<times> ts_type \<times> (string \<times> string) list) list" where
  "tableColumns baseColumns c = baseColumns @ ownColumns c"

definition classMethods :: "ClassDecl \<Rightarrow> string list" where
  "classMethods c = concat (map (\<lambda>m. case m of Method n \<Rightarrow> [n] | Property n t ds \<Rightarrow> []) (members c))"

definition declaredUnique :: "string \<times> ts_type \<times> (string \<times> string) list \<Rightarrow> bool" where
  "declaredUnique col = (map_of (snd (snd col)) ''unique'' = Some ''true'')"

section \<open>Sample inputs\<close>


text \<open>A complete configuration in a given environment mode, and the application
  configuration of a worker or main process with logging on.\<close>

definition sampleConfig :: "Environment \<Rightarrow> string GlobalConfig" where
  "sampleConfig env =
     \<lparr>auth_authSecret = Some ''s3cret'',
      app_corsOrigin = Some ''https://app.example.org'',
      app_nodeEnv = Some env,
      sentry_dsn = Some ''https://key@sentry.example.org/1'',
      app_workerPort = Some 3001,
      app_port = Some 3000\<rparr>"

definition sampleAppConfig :: "bool \<Rightarrow> Environment \<Rightarrow> AppConfig" where
  "sampleAppConfig worker env =
     \<lparr>isWorker = worker, appLogging = True, nodeEnv = env, isHttps = False\<rparr>"

definition sampleRequest :: "string \<Rightarrow> FastifyRequest" where
  "sampleRequest u = \<lparr>url = u, headers = []\<rparr>"

section \<open>Properties of the bootstrap sequence\<close>

subsection \<open>Runs that return\<close>

text \<open>With every key it reads configured, \<^verbatim>\<open>bootstrap\<close> returns, having made exactly
  these calls in this order.\<close>

lemma bootstrap_returns:
  assumes "auth_authSecret cfg = Some secret" "app_corsOrigin cfg = Some org"
    "app_nodeEnv cfg = Some env" "sentry_dsn cfg = Some d"
    "(if isWorker ac then app_workerPort cfg else app_port cfg) = Some p"
  shows "bootstrap P mw u ac cfg =
    ([NestFactory_create (if isWorker ac then AppModule_worker else AppModule_main)
        (fastifyAdapterOptions ac) True,
      register_fastifyCookie secret, setGlobalPrefix ''api'',
      useGlobalPipes validationPipeOptions, enableVersioning URI,
      enableCors (corsOptions org), use_helmet,
      useGlobalInterceptors ClassSerializerInterceptor, setupSwagger,
      Sentry_init \<lparr>dsn = d, tracesSampleRate = 1, environment = env\<rparr>,
      useGlobalInterceptors SentryInterceptor]
     @ (if env \<noteq> Local then [setupGracefulShutdown] else [])
     @ (if \<not> isWorker ac then [useWebSocketAdapter_RedisIoAdapter] else [])
     @ [addHook ''onRequest'' (onRequest P mw),
        listen p ''0.0.0.0'',
        console_info (CHR 0x1B # ''[3'' @ (if isWorker ac then ''3'' else ''4'')
                     @ ''m'' @ (if isWorker ac then ''Worker '' else '''')
                     @ ''Server running at '' @ u)], None)"
  using assms by (simp add: bootstrap_def getOrThrow_def split: if_splits)

text \<open>Conversely, a run that returns found every key it read.\<close>

lemma bootstrap_returned_config:
  assumes "snd (bootstrap P mw u ac cfg) = None"
  shows "\<exists>secret org env d p. auth_authSecret cfg = Some secret \<and> app_corsOrigin cfg = Some org \<and>
    app_nodeEnv cfg = Some env \<and> sentry_dsn cfg = Some d \<and>
    (if isWorker ac then app_workerPort cfg else app_port cfg) = Some p"
  using assms by (auto simp add: bootstrap_def getOrThrow_def split: option.splits if_splits)


lemma bootstrap_first_event:
  "\<exists>rest. fst (bootstrap P mw u ac cfg) =
     NestFactory_create (if isWorker ac then AppModule_worker else AppModule_main)
       (fastifyAdapterOptions ac) True # rest"
  by (auto simp add: bootstrap_def getOrThrow_def split: option.splits if_splits)

lemma startsWith_prefix: "startsWith s p = prefix p s"
  by (auto simp: startsWith_def prefix_def) (metis append_eq_conv_conj)

subsection \<open>Logger\<close>

text \<open>
  C9. Every run starts by creating the application with the adapter options of line 49.
  Their logger is off whenever \<^verbatim>\<open>appLogging\<close> is false. When it is true the logger is
  the entry of the environment mode in \<^verbatim>\<open>envToLogger\<close>: the console logging
  configuration in local and development, \<^verbatim>\<open>true\<close> in production and staging,
  \<^verbatim>\<open>false\<close> in test. So in test mode the logger is off whatever the flag.
\<close>

theorem logger_selection:
  "(\<exists>rest. fst (bootstrap P mw u ac cfg) =
       NestFactory_create (if isWorker ac then AppModule_worker else AppModule_main)
         (fastifyAdapterOptions ac) True # rest)
   \<and> (\<not> appLogging ac \<longrightarrow> logger (fastifyAdapterOptions ac) = LoggerFlag False)
   \<and> (appLogging ac \<longrightarrow> logger (fastifyAdapterOptions ac) = envToLogger (nodeEnv ac))
   \<and> envToLogger Local = consoleLoggingConfig
   \<and> envToLogger Development = consoleLoggingConfig
   \<and> envToLogger Production = LoggerFlag True
   \<and> envToLogger Staging = LoggerFlag True
   \<and> envToLogger Test = LoggerFlag False
   \<and> (nodeEnv ac = Test \<longrightarrow> logger (fastifyAdapterOptions ac) = LoggerFlag False)"
proof -
  have "nodeEnv ac = Test \<Longrightarrow> logger (fastifyAdapterOptions ac) = LoggerFlag False"
    by (simp add: fastifyAdapterOptions_def)
  then show ?thesis
    using bootstrap_first_event [of P mw u ac cfg] by (simp add: fastifyAdapterOptions_def)
qed

theorem logger_selection_witness:
  "logger (fastifyAdapterOptions
       \<lparr>isWorker = False, appLogging = False, nodeEnv = Production, isHttps = True\<rparr>)
     = LoggerFlag False
   \<and> logger (fastifyAdapterOptions (sampleAppConfig False Test)) = LoggerFlag False
   \<and> logger (fastifyAdapterOptions (sampleAppConfig False Local)) = consoleLoggingConfig
   \<and> logger (fastifyAdapterOptions (sampleAppConfig True Staging)) = LoggerFlag True"
  using
    logger_selection [of "''/queues''" "\<lambda>r. Rejected" "''''"
      "\<lparr>isWorker = False, appLogging = False, nodeEnv = Production, isHttps = True\<rparr>"
      "sampleConfig Production"]
    logger_selection [of "''/queues''" "\<lambda>r. Rejected" "''''" "sampleAppConfig False Test"
      "sampleConfig Test"]
    logger_selection [of "''/queues''" "\<lambda>r. Rejected" "''''" "sampleAppConfig False Local"
      "sampleConfig Local"]
    logger_selection [of "''/queues''" "\<lambda>r. Rejected" "''''" "sampleAppConfig True Staging"
      "sampleConfig Staging"]
  by (simp add: sampleAppConfig_def)

subsection \<open>Listening\<close>



subsection \<open>Graceful shutdown\<close>

text \<open>
  C3, as the code has it. Line 112 tests the environment mode against \<^verbatim>\<open>'local'\<close>
  only. In a run that returns, the graceful-shutdown utility is set up exactly when the
  environment mode is not local, and then once; in local mode it is not set up, and in
  test mode it is.
\<close>

theorem graceful_shutdown_unless_local:
  assumes "bootstrap P mw u ac cfg = (tr, None)"
  shows "\<exists>env. app_nodeEnv cfg = Some env
           \<and> (setupGracefulShutdown \<in> set tr \<longleftrightarrow> env \<noteq> Local)
           \<and> count_list tr setupGracefulShutdown = (if env \<noteq> Local then 1 else 0)"
proof -
  from assms have "snd (bootstrap P mw u ac cfg) = None" by simp
  from bootstrap_returned_config [OF this] obtain secret org env d p where
    c: "auth_authSecret cfg = Some secret" "app_corsOrigin cfg = Some org"
      "app_nodeEnv cfg = Some env" "sentry_dsn cfg = Some d"
      "(if isWorker ac then app_workerPort cfg else app_port cfg) = Some p"
    by blast
  from assms bootstrap_returns [OF c, of P mw u] have
    "(setupGracefulShutdown \<in> set tr \<longleftrightarrow> env \<noteq> Local)
     \<and> count_list tr setupGracefulShutdown = (if env \<noteq> Local then 1 else 0)"
    by auto
  with c(3) show ?thesis by blast
qed

theorem graceful_shutdown_unless_local_witness:
  "setupGracefulShutdown \<in> set (fst (bootstrap ''/queues'' (\<lambda>r. Rejected)
       ''http://0.0.0.0:3000'' (sampleAppConfig False Test) (sampleConfig Test)))
   \<and> setupGracefulShutdown \<notin> set (fst (bootstrap ''/queues'' (\<lambda>r. Rejected)
       ''http://0.0.0.0:3000'' (sampleAppConfig False Local) (sampleConfig Local)))"
proof -
  let ?b = "\<lambda>e. bootstrap ''/queues'' (\<lambda>r. Rejected) ''http://0.0.0.0:3000''
       (sampleAppConfig False e) (sampleConfig e)"
  have r: "snd (?b e) = None" for e
    by (simp add: bootstrap_def getOrThrow_def sampleConfig_def sampleAppConfig_def)
  have "?b e = (fst (?b e), None)" for e
    using r [of e] by (metis prod.collapse)
  from graceful_shutdown_unless_local [OF this [of Test]]
    graceful_shutdown_unless_local [OF this [of Local]]
  show ?thesis by (simp add: sampleConfig_def)
qed

text \<open>
  The claim as the spec words it, set up exactly when the mode is neither local nor
  test, fails in test mode: the run returns and the utility has been set up.
\<close>

theorem graceful_shutdown_in_test_mode:
  "app_nodeEnv (sampleConfig Test) = Some Test
   \<and> snd (bootstrap ''/queues'' (\<lambda>r. Rejected) ''http://0.0.0.0:3000''
            (sampleAppConfig False Test) (sampleConfig Test)) = None
   \<and> \<not> (setupGracefulShutdown \<in> set (fst (bootstrap ''/queues'' (\<lambda>r. Rejected)
            ''http://0.0.0.0:3000'' (sampleAppConfig False Test) (sampleConfig Test)))
          \<longleftrightarrow> Test \<noteq> Local \<and> Test \<noteq> Test)"
  by (simp add: bootstrap_def getOrThrow_def sampleConfig_def sampleAppConfig_def)

subsection \<open>The order of the registered concerns\<close>

text \<open>
  C5, as the code has it. A run that returns has made its calls in one fixed order.
  Worker and main runs differ in one entry: the WebSocket adapter is swapped exactly
  when the process is not a worker (line 116). The graceful-shutdown hook is present
  exactly when the environment mode is not local (line 112). Every other entry,
  the dashboard authentication hook among them, is present in every run that returns.
\<close>

theorem concerns_in_order:
  assumes "bootstrap P mw u ac cfg = (tr, None)"
  shows "map concern tr =
     [''NestFactory.create'', ''register(fastifyCookie)'', ''setGlobalPrefix'',
      ''useGlobalPipes(ValidationPipe)'', ''enableVersioning'', ''enableCors'', ''use(helmet)'',
      ''useGlobalInterceptors(ClassSerializerInterceptor)'', ''setupSwagger'', ''Sentry.init'',
      ''useGlobalInterceptors(SentryInterceptor)'']
     @ (if app_nodeEnv cfg \<noteq> Some Local then [''setupGracefulShutdown''] else [])
     @ (if \<not> isWorker ac then [''useWebSocketAdapter(RedisIoAdapter)''] else [])
     @ [''addHook'', ''listen'', ''console.info'']"
proof -
  from assms have "snd (bootstrap P mw u ac cfg) = None" by simp
  from bootstrap_returned_config [OF this] obtain secret org env d p where
    c: "auth_authSecret cfg = Some secret" "app_corsOrigin cfg = Some org"
      "app_nodeEnv cfg = Some env" "sentry_dsn cfg = Some d"
      "(if isWorker ac then app_workerPort cfg else app_port cfg) = Some p"
    by blast
  from assms bootstrap_returns [OF c, of P mw u] c(3) show ?thesis
    by auto
qed

theorem concerns_in_order_witness:
  "map concern (fst (bootstrap ''/queues'' (\<lambda>r. Rejected) ''http://0.0.0.0:3001''
       (sampleAppConfig True Local) (sampleConfig Local))) =
     [''NestFactory.create'', ''register(fastifyCookie)'', ''setGlobalPrefix'',
      ''useGlobalPipes(ValidationPipe)'', ''enableVersioning'', ''enableCors'', ''use(helmet)'',
      ''useGlobalInterceptors(ClassSerializerInterceptor)'', ''setupSwagger'', ''Sentry.init'',
      ''useGlobalInterceptors(SentryInterceptor)'', ''addHook'', ''listen'', ''console.info'']
   \<and> map concern (fst (bootstrap ''/queues'' (\<lambda>r. Rejected) ''http://0.0.0.0:3000''
       (sampleAppConfig False Production) (sampleConfig Production))) =
     [''NestFactory.create'', ''register(fastifyCookie)'', ''setGlobalPrefix'',
      ''useGlobalPipes(ValidationPipe)'', ''enableVersioning'', ''enableCors'', ''use(helmet)'',
      ''useGlobalInterceptors(ClassSerializerInterceptor)'', ''setupSwagger'', ''Sentry.init'',
      ''useGlobalInterceptors(SentryInterceptor)'', ''setupGracefulShutdown'',
      ''useWebSocketAdapter(RedisIoAdapter)'', ''addHook'', ''listen'', ''console.info'']"
proof -
  let ?b = "\<lambda>u w e. bootstrap ''/queues'' (\<lambda>r. Rejected) u
       (sampleAppConfig w e) (sampleConfig e)"
  have r: "snd (?b u w e) = None" for u w e
    by (simp add: bootstrap_def getOrThrow_def sampleConfig_def sampleAppConfig_def)
  have "?b u w e = (fst (?b u w e), None)" for u w e
    using r [of u w e] by (metis prod.collapse)
  from concerns_in_order [OF this [of "''http://0.0.0.0:3001''" True Local]]
    concerns_in_order [OF this [of "''http://0.0.0.0:3000''" False Production]]
  show ?thesis by (simp add: sampleConfig_def sampleAppConfig_def)
qed

text \<open>
  The claim as the spec words it, the same list with the WebSocket adapter swap in
  worker and main mode alike, fails in worker mode: the run returns without the swap,
  and its concerns differ from those of the main run on the same configuration.
\<close>

theorem worker_skips_websocket_adapter:
  "snd (bootstrap ''/queues'' (\<lambda>r. Rejected) ''http://0.0.0.0:3001''
          (sampleAppConfig True Production) (sampleConfig Production)) = None
   \<and> useWebSocketAdapter_RedisIoAdapter \<notin> set (fst (bootstrap ''/queues'' (\<lambda>r. Rejected)
          ''http://0.0.0.0:3001'' (sampleAppConfig True Production) (sampleConfig Production)))
   \<and> map concern (fst (bootstrap ''/queues'' (\<lambda>r. Rejected) ''http://0.0.0.0:3001''
          (sampleAppConfig True Production) (sampleConfig Production)))
     \<noteq> map concern (fst (bootstrap ''/queues'' (\<lambda>r. Rejected) ''http://0.0.0.0:3001''
          (sampleAppConfig False Production) (sampleConfig Production)))"
  by (simp add: bootstrap_def getOrThrow_def sampleConfig_def sampleAppConfig_def)

subsection \<open>CORS\<close>



subsection \<open>Error monitoring\<close>

text \<open>The outcome of every run: the exception of the first key that has no value, in
  the order the keys are read, and a normal return when every key read has one.\<close>

lemma bootstrap_outcome:
  "snd (bootstrap P mw u ac cfg) =
     (if auth_authSecret cfg = None then Some (ConfigKeyMissing ''auth.authSecret'')
      else if app_corsOrigin cfg = None then Some (ConfigKeyMissing ''app.corsOrigin'')
      else if app_nodeEnv cfg = None then Some (ConfigKeyMissing ''app.nodeEnv'')
      else if sentry_dsn cfg = None then Some (ConfigKeyMissing ''sentry.dsn'')
      else if isWorker ac
        then (if app_workerPort cfg = None then Some (ConfigKeyMissing ''app.workerPort'')
              else None)
        else (if app_port cfg = None then Some (ConfigKeyMissing ''app.port'') else None))"
  by (auto simp add: bootstrap_def getOrThrow_def split: option.splits)

text \<open>The calls of a run that found the four keys read before the monitoring step,
  whether or not it goes on to find its port.\<close>

lemma bootstrap_reaches_monitoring:
  assumes "auth_authSecret cfg = Some secret" "app_corsOrigin cfg = Some org"
    "app_nodeEnv cfg = Some env" "sentry_dsn cfg = Some d"
  shows "fst (bootstrap P mw u ac cfg) =
     [NestFactory_create (if isWorker ac then AppModule_worker else AppModule_main)
        (fastifyAdapterOptions ac) True,
      register_fastifyCookie secret, setGlobalPrefix ''api'',
      useGlobalPipes validationPipeOptions, enableVersioning URI,
      enableCors (corsOptions org), use_helmet,
      useGlobalInterceptors ClassSerializerInterceptor, setupSwagger]
     @ [Sentry_init \<lparr>dsn = d, tracesSampleRate = 1, environment = env\<rparr>,
        useGlobalInterceptors SentryInterceptor]
     @ ((if env \<noteq> Local then [setupGracefulShutdown] else [])
        @ (if \<not> isWorker ac then [useWebSocketAdapter_RedisIoAdapter] else [])
        @ [addHook ''onRequest'' (onRequest P mw)]
        @ (case (if isWorker ac then app_workerPort cfg else app_port cfg) of
             None \<Rightarrow> []
           | Some p \<Rightarrow>
               [listen p ''0.0.0.0'',
                console_info (CHR 0x1B # ''[3'' @ (if isWorker ac then ''3'' else ''4'')
                  @ ''m'' @ (if isWorker ac then ''Worker '' else '''')
                  @ ''Server running at '' @ u)]))"
  using assms by (simp add: bootstrap_def getOrThrow_def split: option.splits)

text \<open>The interceptor is registered in exactly the runs that found these four keys.\<close>

lemma bootstrap_registers_interceptor_iff:
  "useGlobalInterceptors SentryInterceptor \<in> set (fst (bootstrap P mw u ac cfg)) \<longleftrightarrow>
     auth_authSecret cfg \<noteq> None \<and> app_corsOrigin cfg \<noteq> None
     \<and> app_nodeEnv cfg \<noteq> None \<and> sentry_dsn cfg \<noteq> None"
  by (auto simp add: bootstrap_def getOrThrow_def split: option.splits)

text \<open>No run makes the same call twice.\<close>

lemma bootstrap_no_call_repeated:
  "distinct (map concern (fst (bootstrap P mw u ac cfg)))"
  by (auto simp add: bootstrap_def getOrThrow_def split: option.splits)

text \<open>
  C7. Take any run of \<^verbatim>\<open>bootstrap\<close>, with its calls \<open>tr\<close> and its outcome \<open>out\<close>.

  \<^item> When the four keys read up to \<^verbatim>\<open>sentry.dsn\<close> have values, the run has initialised
    the error-monitoring SDK exactly once, with the DSN read from \<^verbatim>\<open>sentry.dsn\<close>, and
    has registered the error-forwarding interceptor as a global interceptor right
    after, exactly once; it returns when its port is configured too.
  \<^item> The interceptor is registered in exactly the runs that found these four keys,
    and in each of them the SDK has been initialised; so every run that returns has
    done both.
  \<^item> The interceptor forwards every runtime error that is not a validation failure
    and passes every result on unchanged: it neither recovers nor retries.
  \<^item> Nor do the sources: the outcome of \<^verbatim>\<open>bootstrap\<close> is the exception of the first key
    without a value, unchanged, no call is made twice, and the entity class has no
    method.
\<close>

theorem errors_forwarded_to_monitoring:
  assumes "bootstrap P mw u ac cfg = (tr, out)"
  shows
  "(auth_authSecret cfg = Some secret \<and> app_corsOrigin cfg = Some org
      \<and> app_nodeEnv cfg = Some env \<and> sentry_dsn cfg = Some d \<longrightarrow>
        sentryInits tr = [\<lparr>dsn = d, tracesSampleRate = 1, environment = env\<rparr>]
        \<and> (\<exists>before after.
              tr = before @ [Sentry_init \<lparr>dsn = d, tracesSampleRate = 1, environment = env\<rparr>,
                             useGlobalInterceptors SentryInterceptor] @ after)
        \<and> count_list tr (useGlobalInterceptors SentryInterceptor) = 1
        \<and> (out = None \<longleftrightarrow> (if isWorker ac then app_workerPort cfg else app_port cfg) \<noteq> None))
   \<and> (useGlobalInterceptors SentryInterceptor \<in> set tr \<longleftrightarrow>
        auth_authSecret cfg \<noteq> None \<and> app_corsOrigin cfg \<noteq> None
        \<and> app_nodeEnv cfg \<noteq> None \<and> sentry_dsn cfg \<noteq> None)
   \<and> (out = None \<longrightarrow>
        (\<exists>d' env'. sentry_dsn cfg = Some d' \<and> app_nodeEnv cfg = Some env'
           \<and> sentryInits tr = [\<lparr>dsn = d', tracesSampleRate = 1, environment = env'\<rparr>])
        \<and> useGlobalInterceptors SentryInterceptor \<in> set tr)
   \<and> SentryInterceptor_intercept fv (Inl (OtherError e) :: 'e runtime_error + 'a)
       = ([OtherError e], Inl (OtherError e))
   \<and> snd (SentryInterceptor_intercept fv (r :: 'e runtime_error + 'a)) = r
   \<and> out =
       (if auth_authSecret cfg = None then Some (ConfigKeyMissing ''auth.authSecret'')
        else if app_corsOrigin cfg = None then Some (ConfigKeyMissing ''app.corsOrigin'')
        else if app_nodeEnv cfg = None then Some (ConfigKeyMissing ''app.nodeEnv'')
        else if sentry_dsn cfg = None then Some (ConfigKeyMissing ''sentry.dsn'')
        else if isWorker ac
          then (if app_workerPort cfg = None then Some (ConfigKeyMissing ''app.workerPort'')
                else None)
          else (if app_port cfg = None then Some (ConfigKeyMissing ''app.port'') else None))
   \<and> distinct (map concern tr)
   \<and> classMethods VerificationEntity = []"
proof -
  from assms have tr: "tr = fst (bootstrap P mw u ac cfg)"
    and out: "out = snd (bootstrap P mw u ac cfg)"
    by simp_all
  have reach: "sentryInits tr = [\<lparr>dsn = d, tracesSampleRate = 1, environment = env\<rparr>]
        \<and> (\<exists>before after.
              tr = before @ [Sentry_init \<lparr>dsn = d, tracesSampleRate = 1, environment = env\<rparr>,
                             useGlobalInterceptors SentryInterceptor] @ after)
        \<and> count_list tr (useGlobalInterceptors SentryInterceptor) = 1
        \<and> useGlobalInterceptors SentryInterceptor \<in> set tr"
    if k: "auth_authSecret cfg = Some secret" "app_corsOrigin cfg = Some org"
      "app_nodeEnv cfg = Some env" "sentry_dsn cfg = Some d"
    for secret org env d
  proof -
    note t = bootstrap_reaches_monitoring [OF k, of P mw u ac, folded tr]
    have 1: "sentryInits tr = [\<lparr>dsn = d, tracesSampleRate = 1, environment = env\<rparr>]"
      unfolding t
      by (cases "if isWorker ac then app_workerPort cfg else app_port cfg")
        (simp_all add: sentryInits_def)
    have 2: "count_list tr (useGlobalInterceptors SentryInterceptor) = 1"
      unfolding t
      by (cases "if isWorker ac then app_workerPort cfg else app_port cfg") simp_all
    have 3: "useGlobalInterceptors SentryInterceptor \<in> set tr"
      unfolding t by simp
    from t 1 2 3 show ?thesis by blast
  qed
  have port: "out = None \<longleftrightarrow> (if isWorker ac then app_workerPort cfg else app_port cfg) \<noteq> None"
    if "auth_authSecret cfg = Some secret" "app_corsOrigin cfg = Some org"
      "app_nodeEnv cfg = Some env" "sentry_dsn cfg = Some d"
    using that unfolding out bootstrap_outcome by simp
  have first: "auth_authSecret cfg = Some secret \<and> app_corsOrigin cfg = Some org
      \<and> app_nodeEnv cfg = Some env \<and> sentry_dsn cfg = Some d \<longrightarrow>
        sentryInits tr = [\<lparr>dsn = d, tracesSampleRate = 1, environment = env\<rparr>]
        \<and> (\<exists>before after.
              tr = before @ [Sentry_init \<lparr>dsn = d, tracesSampleRate = 1, environment = env\<rparr>,
                             useGlobalInterceptors SentryInterceptor] @ after)
        \<and> count_list tr (useGlobalInterceptors SentryInterceptor) = 1
        \<and> (out = None \<longleftrightarrow> (if isWorker ac then app_workerPort cfg else app_port cfg) \<noteq> None)"
    using reach [of secret org env d] port by blast
  note registered = bootstrap_registers_interceptor_iff [of P mw u ac cfg, folded tr]
  have returned: "(\<exists>d' env'. sentry_dsn cfg = Some d' \<and> app_nodeEnv cfg = Some env'
           \<and> sentryInits tr = [\<lparr>dsn = d', tracesSampleRate = 1, environment = env'\<rparr>])
        \<and> useGlobalInterceptors SentryInterceptor \<in> set tr"
    if "out = None"
  proof -
    from that out have "snd (bootstrap P mw u ac cfg) = None" by simp
    from bootstrap_returned_config [OF this] obtain s' o' e' d' p' where
      c: "auth_authSecret cfg = Some s'" "app_corsOrigin cfg = Some o'"
        "app_nodeEnv cfg = Some e'" "sentry_dsn cfg = Some d'"
      by blast
    from reach [OF c] c(3,4) show ?thesis by blast
  qed
  have forward: "SentryInterceptor_intercept fv (Inl (OtherError e) :: 'e runtime_error + 'a)
       = ([OtherError e], Inl (OtherError e))"
    by (simp add: SentryInterceptor_intercept_def)
  have pass: "snd (SentryInterceptor_intercept fv r) = r"
    by (simp add: SentryInterceptor_intercept_def split: sum.splits runtime_error.splits)
  have nomethod: "classMethods VerificationEntity = []"
    by (simp add: classMethods_def VerificationEntity_def)
  note outcome = bootstrap_outcome [of P mw u ac cfg, folded out]
  note norepeat = bootstrap_no_call_repeated [of P mw u ac cfg, folded tr]
  from first registered returned forward pass outcome norepeat nomethod
  show ?thesis by blast
qed

theorem errors_forwarded_to_monitoring_witness:
  "snd (bootstrap ''/queues'' (\<lambda>r. Rejected) ''http://0.0.0.0:3000''
       (sampleAppConfig False Production) (sampleConfig Production)) = None
   \<and> sentryInits (fst (bootstrap ''/queues'' (\<lambda>r. Rejected) ''http://0.0.0.0:3000''
       (sampleAppConfig False Production) (sampleConfig Production)))
     = [\<lparr>dsn = ''https://key@sentry.example.org/1'', tracesSampleRate = 1,
         environment = Production\<rparr>]
   \<and> useGlobalInterceptors SentryInterceptor
       \<in> set (fst (bootstrap ''/queues'' (\<lambda>r. Rejected) ''http://0.0.0.0:3000''
            (sampleAppConfig False Production) (sampleConfig Production)))
   \<and> count_list (fst (bootstrap ''/queues'' (\<lambda>r. Rejected) ''http://0.0.0.0:3000''
         (sampleAppConfig False Production) (sampleConfig Production)))
       (useGlobalInterceptors SentryInterceptor) = 1
   \<and> SentryInterceptor_intercept False (Inl (OtherError ''boom'') :: string runtime_error + unit)
     = ([OtherError ''boom''], Inl (OtherError ''boom''))
   \<and> snd (bootstrap ''/queues'' (\<lambda>r. Rejected) ''http://0.0.0.0:3000''
       (sampleAppConfig False Production) ((sampleConfig Production)\<lparr>sentry_dsn := None\<rparr>))
     = Some (ConfigKeyMissing ''sentry.dsn'')
   \<and> useGlobalInterceptors SentryInterceptor
       \<notin> set (fst (bootstrap ''/queues'' (\<lambda>r. Rejected) ''http://0.0.0.0:3000''
            (sampleAppConfig False Production)
            ((sampleConfig Production)\<lparr>sentry_dsn := None\<rparr>)))"
proof -
  let ?run = "\<lambda>cfg. bootstrap ''/queues'' (\<lambda>r. Rejected) ''http://0.0.0.0:3000''
       (sampleAppConfig False Production) cfg"
  let ?full = "sampleConfig Production"
  let ?nodsn = "(sampleConfig Production)\<lparr>sentry_dsn := None\<rparr>"
  have full: "?run ?full = (fst (?run ?full), snd (?run ?full))"
    and nodsn: "?run ?nodsn = (fst (?run ?nodsn), snd (?run ?nodsn))"
    by simp_all
  have keys: "auth_authSecret ?full = Some ''s3cret''"
    "app_corsOrigin ?full = Some ''https://app.example.org''"
    "app_nodeEnv ?full = Some Production"
    "sentry_dsn ?full = Some ''https://key@sentry.example.org/1''"
    "app_port ?full = Some 3000" "\<not> isWorker (sampleAppConfig False Production)"
    by (simp_all add: sampleConfig_def sampleAppConfig_def)
  have missing: "auth_authSecret ?nodsn \<noteq> None" "app_corsOrigin ?nodsn \<noteq> None"
    "app_nodeEnv ?nodsn \<noteq> None" "sentry_dsn ?nodsn = None"
    by (simp_all add: sampleConfig_def)
  from errors_forwarded_to_monitoring [OF full, of "''s3cret''" "''https://app.example.org''"
      Production "''https://key@sentry.example.org/1''" False "''boom''"
      "Inl (OtherError ''boom'') :: string runtime_error + unit"] keys
  have a: "snd (?run ?full) = None"
    "sentryInits (fst (?run ?full))
       = [\<lparr>dsn = ''https://key@sentry.example.org/1'', tracesSampleRate = 1,
           environment = Production\<rparr>]"
    "useGlobalInterceptors SentryInterceptor \<in> set (fst (?run ?full))"
    "count_list (fst (?run ?full)) (useGlobalInterceptors SentryInterceptor) = 1"
    "SentryInterceptor_intercept False (Inl (OtherError ''boom'') :: string runtime_error + unit)
       = ([OtherError ''boom''], Inl (OtherError ''boom''))"
    by simp_all
  from errors_forwarded_to_monitoring [OF nodsn, of "''s3cret''" "''https://app.example.org''"
      Production "''x''" False "''boom''"
      "Inl (OtherError ''boom'') :: string runtime_error + unit"] missing
  have b: "snd (?run ?nodsn) = Some (ConfigKeyMissing ''sentry.dsn'')"
    "useGlobalInterceptors SentryInterceptor \<notin> set (fst (?run ?nodsn))"
    by simp_all
  from a b show ?thesis by simp
qed

subsection \<open>The dashboard gate\<close>

lemma bootstrap_hooks:
  assumes "bootstrap P mw u ac cfg = (tr, None)"
  shows "hooks tr = [(''onRequest'', onRequest P mw)]"
    and "\<exists>before after. tr = before @ addHook ''onRequest'' (onRequest P mw) # after
           \<and> listens before = [] \<and> listens after \<noteq> []"
    and "useGlobalPipes validationPipeOptions \<in> set tr"
proof -
  from assms have "snd (bootstrap P mw u ac cfg) = None" by simp
  from bootstrap_returned_config [OF this] obtain secret org env d p where
    c: "auth_authSecret cfg = Some secret" "app_corsOrigin cfg = Some org"
      "app_nodeEnv cfg = Some env" "sentry_dsn cfg = Some d"
      "(if isWorker ac then app_workerPort cfg else app_port cfg) = Some p"
    by blast
  note t = assms [unfolded bootstrap_returns [OF c, of P mw u]]
  from t show "hooks tr = [(''onRequest'', onRequest P mw)]"
    by (auto simp: hooks_def)
  from t show "useGlobalPipes validationPipeOptions \<in> set tr"
    by auto
  let ?before = "[NestFactory_create (if isWorker ac then AppModule_worker else AppModule_main)
        (fastifyAdapterOptions ac) True,
      register_fastifyCookie secret, setGlobalPrefix ''api'',
      useGlobalPipes validationPipeOptions, enableVersioning URI,
      enableCors (corsOptions org), use_helmet,
      useGlobalInterceptors ClassSerializerInterceptor, setupSwagger,
      Sentry_init \<lparr>dsn = d, tracesSampleRate = 1, environment = env\<rparr>,
      useGlobalInterceptors SentryInterceptor]
     @ (if env \<noteq> Local then [setupGracefulShutdown] else [])
     @ (if \<not> isWorker ac then [useWebSocketAdapter_RedisIoAdapter] else [])"
  let ?after = "[listen p ''0.0.0.0'',
        console_info (CHR 0x1B # ''[3'' @ (if isWorker ac then ''3'' else ''4'')
                     @ ''m'' @ (if isWorker ac then ''Worker '' else '''')
                     @ ''Server running at '' @ u)]"
  from t have "tr = ?before @ addHook ''onRequest'' (onRequest P mw) # ?after"
    by auto
  moreover have "listens ?before = []" by (simp add: listens_def)
  moreover have "listens ?after \<noteq> []" by (simp add: listens_def)
  ultimately show "\<exists>before after. tr = before @ addHook ''onRequest'' (onRequest P mw) # after
           \<and> listens before = [] \<and> listens after \<noteq> []"
    by blast
qed

text \<open>
  C4. A run that returns has added one hook to the HTTP server, under \<^verbatim>\<open>onRequest\<close>
  and before it listens, so before any request is served. On a request whose URL
  begins with \<^verbatim>\<open>/api\<close> followed by \<^verbatim>\<open>BULL_BOARD_PATH\<close> the hook calls the
  authentication middleware, once and on that request, and its outcome is the
  middleware's. With the middleware the spec describes, a request without valid
  credentials is rejected.
\<close>

theorem dashboard_requests_authenticated:
  "(bootstrap P mw u ac cfg = (tr, None) \<longrightarrow>
       hooks tr = [(''onRequest'', onRequest P mw)]
       \<and> (\<exists>before after. tr = before @ addHook ''onRequest'' (onRequest P mw) # after
             \<and> listens before = [] \<and> listens after \<noteq> []))
   \<and> (prefix (''/api'' @ P) (url req) \<longrightarrow>
        onRequest P mw req = \<lparr>auth_calls = [req], outcome = mw req\<rparr>)
   \<and> (prefix (''/api'' @ P) (url req) \<and> \<not> valid req \<longrightarrow>
        onRequest P (bullBoardAuthMiddleware_spec valid) req
          = \<lparr>auth_calls = [req], outcome = Rejected\<rparr>)"
  using bootstrap_hooks(1,2) [of P mw u ac cfg tr]
  by (simp add: onRequest_def startsWith_prefix bullBoardAuthMiddleware_spec_def)

theorem dashboard_requests_authenticated_witness:
  "hooks (fst (bootstrap ''/queues'' (bullBoardAuthMiddleware_spec (\<lambda>r. headers r \<noteq> []))
        ''http://0.0.0.0:3000'' (sampleAppConfig False Production) (sampleConfig Production)))
     = [(''onRequest'', onRequest ''/queues'' (bullBoardAuthMiddleware_spec (\<lambda>r. headers r \<noteq> [])))]
   \<and> prefix (''/api'' @ ''/queues'') (url (sampleRequest ''/api/queues/queue/mail''))
   \<and> onRequest ''/queues'' (bullBoardAuthMiddleware_spec (\<lambda>r. headers r \<noteq> []))
        (sampleRequest ''/api/queues/queue/mail'')
      = \<lparr>auth_calls = [sampleRequest ''/api/queues/queue/mail''], outcome = Rejected\<rparr>"
proof -
  let ?mw = "bullBoardAuthMiddleware_spec (\<lambda>r. headers r \<noteq> [])"
  let ?b = "bootstrap ''/queues'' ?mw ''http://0.0.0.0:3000''
       (sampleAppConfig False Production) (sampleConfig Production)"
  have "snd ?b = None"
    by (simp add: bootstrap_def getOrThrow_def sampleConfig_def sampleAppConfig_def)
  then have b: "?b = (fst ?b, None)"
    by (metis prod.collapse)
  have p: "prefix (''/api'' @ ''/queues'') (url (sampleRequest ''/api/queues/queue/mail''))"
    by (simp add: sampleRequest_def)
  have v: "\<not> (\<lambda>r. headers r \<noteq> []) (sampleRequest ''/api/queues/queue/mail'')"
    by (simp add: sampleRequest_def)
  from dashboard_requests_authenticated [of "''/queues''" ?mw "''http://0.0.0.0:3000''"
      "sampleAppConfig False Production" "sampleConfig Production" "fst ?b"
      "sampleRequest ''/api/queues/queue/mail''" "\<lambda>r. headers r \<noteq> []"] b p v
  show ?thesis by blast
qed

text \<open>
  C10. On a request whose URL does not begin with \<^verbatim>\<open>/api\<close> followed by
  \<^verbatim>\<open>BULL_BOARD_PATH\<close> the hook does not call the authentication middleware and lets the
  request go on, whatever the middleware is. It is the only hook \<^verbatim>\<open>bootstrap\<close> adds.
\<close>

theorem other_requests_bypass_dashboard_gate:
  "(\<not> prefix (''/api'' @ P) (url req) \<longrightarrow>
        onRequest P mw req = \<lparr>auth_calls = [], outcome = Continue\<rparr>
        \<and> onRequest P mw req = onRequest P mw' req)
   \<and> (bootstrap P mw u ac cfg = (tr, None) \<longrightarrow> hooks tr = [(''onRequest'', onRequest P mw)])"
  using bootstrap_hooks(1) [of P mw u ac cfg tr]
  by (simp add: onRequest_def startsWith_prefix)

theorem other_requests_bypass_dashboard_gate_witness:
  "\<not> prefix (''/api'' @ ''/queues'') (url (sampleRequest ''/api/v1/users''))
   \<and> onRequest ''/queues'' (\<lambda>r. Rejected) (sampleRequest ''/api/v1/users'')
       = \<lparr>auth_calls = [], outcome = Continue\<rparr>
   \<and> hooks (fst (bootstrap ''/queues'' (\<lambda>r. Rejected)
        ''http://0.0.0.0:3000'' (sampleAppConfig False Production) (sampleConfig Production)))
     = [(''onRequest'', onRequest ''/queues'' (\<lambda>r. Rejected))]"
proof -
  let ?b = "bootstrap ''/queues'' (\<lambda>r. Rejected) ''http://0.0.0.0:3000''
       (sampleAppConfig False Production) (sampleConfig Production)"
  have "snd ?b = None"
    by (simp add: bootstrap_def getOrThrow_def sampleConfig_def sampleAppConfig_def)
  then have b: "?b = (fst ?b, None)"
    by (metis prod.collapse)
  have p: "\<not> prefix (''/api'' @ ''/queues'') (url (sampleRequest ''/api/v1/users''))"
    by (simp add: sampleRequest_def)
  from other_requests_bypass_dashboard_gate [of "''/queues''" "sampleRequest ''/api/v1/users''"
      "\<lambda>r. Rejected" "\<lambda>r. Continue" "''http://0.0.0.0:3000''"
      "sampleAppConfig False Production" "sampleConfig Production" "fst ?b"] b p
  show ?thesis by simp
qed

section \<open>Properties of request validation\<close>

lemma fieldErrors_nonempty:
  assumes "map_of dto k = None \<or> (\<exists>ok. map_of dto k = Some ok \<and> \<not> ok v)"
  shows "\<exists>c. fieldErrors validationPipeOptions dto (k, v) = [\<lparr>property = k, constraints = c\<rparr>]"
  using assms by (auto simp: fieldErrors_def validationPipeOptions_def)

text \<open>
  C1. A run that returns has registered the validation pipe globally with the options of
  lines 68 to 76. With these options, a request body with a field the DTO does not
  declare, or with a declared field whose value fails its check, is rejected: the pipe
  throws the exception of \<^verbatim>\<open>exceptionFactory\<close>, whose status is 422 and whose response is
  the list of validation errors, with an error for that field in it.
\<close>

theorem unknown_or_malformed_field_rejected:
  "((k, v) \<in> set body \<and> (map_of dto k = None \<or> (\<exists>ok. map_of dto k = Some ok \<and> \<not> ok v)) \<longrightarrow>
      (\<exists>errs c. ValidationPipe_transform validationPipeOptions dto body
                  = Inl \<lparr>status = 422, response = errs\<rparr>
         \<and> errs = concat (map (fieldErrors validationPipeOptions dto) body)
         \<and> \<lparr>property = k, constraints = c\<rparr> \<in> set errs))
   \<and> (bootstrap P mw u ac cfg = (tr, None) \<longrightarrow> useGlobalPipes validationPipeOptions \<in> set tr)"
proof -
  have "\<exists>errs c. ValidationPipe_transform validationPipeOptions dto body
                  = Inl \<lparr>status = 422, response = errs\<rparr>
         \<and> errs = concat (map (fieldErrors validationPipeOptions dto) body)
         \<and> \<lparr>property = k, constraints = c\<rparr> \<in> set errs"
    if m: "(k, v) \<in> set body"
      and bad: "map_of dto k = None \<or> (\<exists>ok. map_of dto k = Some ok \<and> \<not> ok v)"
  proof -
    let ?errs = "concat (map (fieldErrors validationPipeOptions dto) body)"
    from fieldErrors_nonempty [OF bad] obtain c where
      c: "fieldErrors validationPipeOptions dto (k, v) = [\<lparr>property = k, constraints = c\<rparr>]"
      by blast
    with m have mem: "\<lparr>property = k, constraints = c\<rparr> \<in> set ?errs"
      by force
    then have "?errs \<noteq> []" by (metis empty_iff empty_set)
    then have "ValidationPipe_transform validationPipeOptions dto body
                 = Inl \<lparr>status = 422, response = ?errs\<rparr>"
      by (simp add: ValidationPipe_transform_def Let_def validationPipeOptions_def
          UnprocessableEntityException_def HttpStatus_UNPROCESSABLE_ENTITY_def)
    with mem show ?thesis by blast
  qed
  then show ?thesis
    using bootstrap_hooks(3) [of P mw u ac cfg tr] by blast
qed

theorem unknown_or_malformed_field_rejected_witness:
  "ValidationPipe_transform validationPipeOptions [(''email'', \<lambda>v. v \<noteq> [])]
      [(''email'', ''a@example.org''), (''isAdmin'', ''true'')]
     = Inl \<lparr>status = 422,
            response = [\<lparr>property = ''isAdmin'', constraints = [''whitelistValidation'']\<rparr>]\<rparr>
   \<and> ValidationPipe_transform validationPipeOptions [(''email'', \<lambda>v. v \<noteq> [])]
      [(''email'', '''')]
     = Inl \<lparr>status = 422, response = [\<lparr>property = ''email'', constraints = [''malformed'']\<rparr>]\<rparr>
   \<and> ValidationPipe_transform validationPipeOptions [(''email'', \<lambda>v. v \<noteq> [])]
      [(''email'', ''a@example.org'')]
     = Inr [(''email'', ''a@example.org'')]"
  using
    unknown_or_malformed_field_rejected [of "''isAdmin''" "''true''"
      "[(''email'', ''a@example.org''), (''isAdmin'', ''true'')]" "[(''email'', \<lambda>v. v \<noteq> [])]"]
    unknown_or_malformed_field_rejected [of "''email''" "''''"
      "[(''email'', '''')]" "[(''email'', \<lambda>v. v \<noteq> [])]"]
  by (simp add: ValidationPipe_transform_def fieldErrors_def validationPipeOptions_def
      UnprocessableEntityException_def HttpStatus_UNPROCESSABLE_ENTITY_def)

section \<open>Properties of the verification entity\<close>

text \<open>
  C8. The file declares one entity, the class \<^verbatim>\<open>VerificationEntity\<close>, mapped to the table
  \<^verbatim>\<open>verification\<close> and extending \<^verbatim>\<open>BaseModel\<close>. Its own columns are \<^verbatim>\<open>identifier\<close>
  and \<^verbatim>\<open>value\<close>, both strings with no column option, and \<^verbatim>\<open>expiresAt\<close>, a date of
  database type \<^verbatim>\<open>timestamp\<close>; the table has them after the columns of the base
  class. No column is declared unique, every member of the class is one of these
  columns, and the class has no method.
\<close>

theorem verification_entity_schema:
  "map className (entities part_000) = [''VerificationEntity'']
   \<and> tableNames VerificationEntity = [''verification'']
   \<and> superClass VerificationEntity = Some ''BaseModel''
   \<and> ownColumns VerificationEntity =
       [(''identifier'', TsString, []), (''value'', TsString, []),
        (''expiresAt'', TsDate, [(''type'', ''timestamp'')])]
   \<and> tableColumns baseColumns VerificationEntity = baseColumns @ ownColumns VerificationEntity
   \<and> filter declaredUnique (ownColumns VerificationEntity) = []
   \<and> length (members VerificationEntity) = length (ownColumns VerificationEntity)
   \<and> classMethods VerificationEntity = []"
  by (simp add: entities_def part_000_def tableNames_def VerificationEntity_def ownColumns_def
      columnOptions_def tableColumns_def declaredUnique_def classMethods_def)

end
